theory Spec2Isabelle
  imports Main "HOL-Library.Word"
begin

unbundle bit_operations_syntax

section \<open>The mediafire-fuse adapter: data model\<close>

text \<open>
  The development embeds \<^verbatim>\<open>src/fuse/operations.c\<close> (the FUSE callbacks),
  \<^verbatim>\<open>src/mfapi/apicalls/folder_create.c\<close> and \<^verbatim>\<open>src/mfapi/file.c\<close>.
  A C string is a \<open>string\<close>; a pointer that may be \<open>NULL\<close> is an \<open>option\<close>;
  a C \<open>int\<close> result is an \<open>int\<close>; open flags and file modes are 32-bit words.
\<close>

subsection \<open>Constants of the C library\<close>

definition EACCES :: int where "EACCES = 13"
definition ENOENT :: int where "ENOENT = 2"
definition EAGAIN :: int where "EAGAIN = 11"

definition O_ACCMODE :: "32 word" where "O_ACCMODE = 3"
definition O_RDONLY :: "32 word" where "O_RDONLY = 0"
definition O_WRONLY :: "32 word" where "O_WRONLY = 1"
definition O_RDWR :: "32 word" where "O_RDWR = 2"

text \<open>\<open>S_IFREG\<close> is octal 0100000; the permission bits 0666 and 0644 are octal too.\<close>

definition S_IFREG :: "32 word" where "S_IFREG = 0x8000"
definition perm_0666 :: "32 word" where "perm_0666 = 0x1B6"
definition perm_0644 :: "32 word" where "perm_0644 = 0x1A4"

subsection \<open>Structures\<close>

text \<open>\<open>struct stat\<close>, with the fields \<open>mediafirefs_getattr\<close> writes.\<close>

record stat =
  st_uid :: nat
  st_gid :: nat
  st_ctime :: int
  st_mtime :: int
  st_mode :: "32 word"
  st_nlink :: nat
  st_atime :: int
  st_size :: int

text \<open>\<open>struct mediafirefs_openfile\<close>: the state behind one open handle.\<close>

record openfile =
  fd :: int
  path :: string
  is_readonly :: bool
  is_local :: bool

text \<open>
  \<open>struct fuse_file_info\<close>: the open flags and the handle \<open>fh\<close>, which holds the address
  of the handle's \<open>openfile\<close>.
\<close>

record fuse_file_info =
  flags :: "32 word"
  fh :: nat

type_synonym mfconn = nat
type_synonym mode_t = "32 word"

subsection \<open>External calls\<close>

text \<open>
  Every function the three files call and do not define (the folder tree, the remote
  API, the HTTP layer, the C library's allocator and file descriptors) acts on a world
  \<open>'w\<close> that the callbacks never inspect. The record \<open>ext\<close> holds these functions, so the
  callbacks are verified for every behaviour of their collaborators. Each call is also
  written to a log, in order, so that a statement can speak of the calls made.
\<close>

datatype call =
    Folder_tree_update bool
  | Folder_tree_getattr string
  | Folder_tree_path_get_key string
  | Folder_tree_open_file string "32 word" bool
  | Folder_tree_tmp_open
  | Folder_tree_upload_patch string
  | Api_upload_simple "string option" int string
  | Api_upload_poll_upload string
  | Create_signed_get mfconn int string string
  | Http_get_buf string
  | Malloc
  | Close int
  | Fclose int
  | Free nat
  | Pread int nat int
  | Pwrite int "char list" int

record 'w ext =
  folder_tree_update :: "bool \<Rightarrow> 'w \<Rightarrow> 'w"
  folder_tree_getattr :: "string \<Rightarrow> stat \<Rightarrow> 'w \<Rightarrow> (int \<times> stat) \<times> 'w"
  folder_tree_path_get_key :: "string \<Rightarrow> 'w \<Rightarrow> string option \<times> 'w"
  folder_tree_open_file :: "string \<Rightarrow> 32 word \<Rightarrow> bool \<Rightarrow> 'w \<Rightarrow> int \<times> 'w"
  folder_tree_tmp_open :: "'w \<Rightarrow> int \<times> 'w"
  folder_tree_upload_patch :: "string \<Rightarrow> 'w \<Rightarrow> int \<times> 'w"
  mfconn_api_upload_simple ::
    "string option \<Rightarrow> int \<Rightarrow> string \<Rightarrow> 'w \<Rightarrow> (int \<times> string option) \<times> 'w"
  mfconn_api_upload_poll_upload :: "string \<Rightarrow> 'w \<Rightarrow> (int \<times> int \<times> int) \<times> 'w"
  mfconn_create_signed_get ::
    "mfconn \<Rightarrow> int \<Rightarrow> string \<Rightarrow> string \<Rightarrow> 'w \<Rightarrow> string \<times> 'w"
  http_get_buf :: "string \<Rightarrow> 'w \<Rightarrow> int \<times> 'w"
  geteuid :: "'w \<Rightarrow> nat"
  getegid :: "'w \<Rightarrow> nat"
  malloc :: "'w \<Rightarrow> nat \<times> 'w"
  close_fd :: "int \<Rightarrow> 'w \<Rightarrow> 'w"
  pread :: "int \<Rightarrow> nat \<Rightarrow> int \<Rightarrow> 'w \<Rightarrow> (int \<times> char list) \<times> 'w"
  pwrite :: "int \<Rightarrow> char list \<Rightarrow> int \<Rightarrow> 'w \<Rightarrow> int \<times> 'w"

subsection \<open>The string vector\<close>

text \<open>
  Modelled from the spec: \<^verbatim>\<open>stringv.c\<close> is not among the sources. The spec calls it
  an ordered multiset of path strings with add, remove and contains; the callers use
  \<open>stringv_mem\<close> as a truth value and take a result of 0 from \<open>stringv_del\<close> to mean
  that one entry was found and removed.
\<close>

type_synonym stringv = "string list"

definition stringv_mem :: "stringv \<Rightarrow> string \<Rightarrow> bool" where
  "stringv_mem sv p = (p \<in> set sv)"

definition stringv_add :: "stringv \<Rightarrow> string \<Rightarrow> stringv" where
  "stringv_add sv p = sv @ [p]"

definition stringv_del :: "stringv \<Rightarrow> string \<Rightarrow> int \<times> stringv" where
  "stringv_del sv p = (if p \<in> set sv then (0, remove1 p sv) else (- 1, sv))"

subsection \<open>The process state\<close>

text \<open>
  \<open>sys\<close> is what a library function sees: the world and the call log. The FUSE
  context (\<open>struct mediafirefs_context_private\<close>) extends it with the connection, the
  two string vectors and the heap of live \<open>openfile\<close> objects.
\<close>

record 'w sys =
  world :: 'w
  calls :: "call list"

record 'w context_private = "'w sys" +
  conn :: "mfconn option"
  sv_writefiles :: stringv
  sv_readonlyfiles :: stringv
  heap :: "nat \<Rightarrow> openfile option"

text \<open>
  A callback returns an \<open>int\<close> to the host together with what it has written; it can
  also end the process with \<open>exit\<close>, or step outside defined behaviour (a \<open>NULL\<close> or
  dangling pointer is dereferenced).
\<close>

datatype 'a outcome = Return int 'a | Exit int | Fault


definition ext_call ::
  "call \<Rightarrow> ('w \<Rightarrow> 'a \<times> 'w) \<Rightarrow> ('w, 'z) sys_scheme \<Rightarrow> 'a \<times> ('w, 'z) sys_scheme" where
  "ext_call c f s =
     (case f (world s) of (r, w') \<Rightarrow> (r, s\<lparr>world := w', calls := calls s @ [c]\<rparr>))"

definition ext_proc ::
  "call \<Rightarrow> ('w \<Rightarrow> 'w) \<Rightarrow> ('w, 'z) sys_scheme \<Rightarrow> ('w, 'z) sys_scheme" where
  "ext_proc c f s = s\<lparr>world := f (world s), calls := calls s @ [c]\<rparr>"

section \<open>The callbacks of operations.c\<close>

subsection \<open>getattr\<close>

text \<open>
  \<open>mediafirefs_getattr\<close>: a non-forced update, the catalog lookup, and the synthetic
  record when the lookup fails for a path of \<open>sv_writefiles\<close>.
\<close>

definition mediafirefs_getattr ::
  "'w ext \<Rightarrow> string \<Rightarrow> stat \<Rightarrow> 'w context_private \<Rightarrow> (stat \<times> 'w context_private) outcome" where
  "mediafirefs_getattr x p stbuf ctx =
     (let s1 = ext_proc (Folder_tree_update False) (folder_tree_update x False) ctx;
          ((retval, stbuf1), s2) =
             ext_call (Folder_tree_getattr p) (folder_tree_getattr x p stbuf) s1
      in if retval \<noteq> 0 \<and> stringv_mem (sv_writefiles s2) p
         then Return 0
           (stbuf1\<lparr>st_uid := geteuid x (world s2), st_gid := getegid x (world s2),
              st_ctime := 0, st_mtime := 0, st_mode := S_IFREG OR perm_0666,
              st_nlink := 1, st_atime := 0, st_size := 0\<rparr>, s2)
         else Return retval (stbuf1, s2))"

subsection \<open>open and create\<close>

text \<open>
  \<open>mediafirefs_open\<close>. The only refusal of its own is the first test: a request that is
  not read-only for a path of \<open>sv_writefiles\<close>. \<open>is_open\<close> decides whether
  \<open>folder_tree_open_file\<close> may refresh the staged copy. \<open>malloc\<close>'s result is used
  unchecked, so a \<open>NULL\<close> from it is a fault.
\<close>

definition mediafirefs_open ::
  "'w ext \<Rightarrow> string \<Rightarrow> fuse_file_info \<Rightarrow> 'w context_private
     \<Rightarrow> (fuse_file_info \<times> 'w context_private) outcome" where
  "mediafirefs_open x p file_info ctx =
     (if (flags file_info AND O_ACCMODE) \<noteq> O_RDONLY \<and> stringv_mem (sv_writefiles ctx) p
      then Return (- EACCES) (file_info, ctx)
      else
        let is_open0 = stringv_mem (sv_readonlyfiles ctx) p;
            is_open = (if \<not> is_open0 \<and> (flags file_info AND O_ACCMODE) = O_RDONLY
                          \<and> stringv_mem (sv_writefiles ctx) p
                       then True else is_open0);
            (fdn, s1) = ext_call (Folder_tree_open_file p (flags file_info) (\<not> is_open))
                          (folder_tree_open_file x p (flags file_info) (\<not> is_open)) ctx
        in if fdn < 0 then Return fdn (file_info, s1)
           else
             let (a, s2) = ext_call Malloc (malloc x) s1
             in if a = 0 then Fault
                else if (flags file_info AND O_ACCMODE) = O_RDONLY
                then Return 0 (file_info\<lparr>fh := a\<rparr>,
                  s2\<lparr>heap := (heap s2)(a \<mapsto>
                         \<lparr>fd = fdn, path = p, is_readonly = True, is_local = False\<rparr>),
                     sv_readonlyfiles := stringv_add (sv_readonlyfiles s2) p\<rparr>)
                else Return 0 (file_info\<lparr>fh := a\<rparr>,
                  s2\<lparr>heap := (heap s2)(a \<mapsto>
                         \<lparr>fd = fdn, path = p, is_readonly = False, is_local = False\<rparr>),
                     sv_writefiles := stringv_add (sv_writefiles s2) p\<rparr>))"

text \<open>\<open>mediafirefs_create\<close>: \<open>mode\<close> is cast to void; nothing is looked up.\<close>

definition mediafirefs_create ::
  "'w ext \<Rightarrow> string \<Rightarrow> mode_t \<Rightarrow> fuse_file_info \<Rightarrow> 'w context_private
     \<Rightarrow> (fuse_file_info \<times> 'w context_private) outcome" where
  "mediafirefs_create x p mode file_info ctx =
     (let (fdn, s1) = ext_call Folder_tree_tmp_open (folder_tree_tmp_open x) ctx
      in if fdn < 0 then Return (- EACCES) (file_info, s1)
         else
           let (a, s2) = ext_call Malloc (malloc x) s1
           in if a = 0 then Fault
              else Return 0 (file_info\<lparr>fh := a\<rparr>,
                s2\<lparr>heap := (heap s2)(a \<mapsto>
                       \<lparr>fd = fdn, path = p, is_readonly = False, is_local = True\<rparr>),
                   sv_writefiles := stringv_add (sv_writefiles s2) p\<rparr>))"

subsection \<open>read and write\<close>


definition mediafirefs_write ::
  "'w ext \<Rightarrow> string \<Rightarrow> char list \<Rightarrow> int \<Rightarrow> fuse_file_info \<Rightarrow> 'w context_private
     \<Rightarrow> ('w context_private) outcome" where
  "mediafirefs_write x p buf offset file_info ctx =
     (case heap ctx (fh file_info) of
        None \<Rightarrow> Fault
      | Some opf \<Rightarrow>
          let (n, s1) = ext_call (Pwrite (fd opf) buf offset) (pwrite x (fd opf) buf offset) ctx
          in Return n s1)"


subsection \<open>release\<close>

text \<open>
  The C library's \<open>basename\<close> and \<open>dirname\<close> of \<^verbatim>\<open>libgen.h\<close> (the POSIX
  \<open>basename\<close>), after glibc. For \<open>basename\<close> trailing slashes do not count, an empty
  path gives \<open>"."\<close> and a path of slashes \<open>"/"\<close>.
\<close>

definition strip_slashes :: "string \<Rightarrow> string" where
  "strip_slashes s = rev (dropWhile (\<lambda>c. c = CHR ''/'') (rev s))"

definition basename :: "string \<Rightarrow> string" where
  "basename p =
     (if p = [] then ''.''
      else let q = strip_slashes p
           in if q = [] then ''/'' else rev (takeWhile (\<lambda>c. c \<noteq> CHR ''/'') (rev q)))"

text \<open>\<open>strrchr(s, '/')\<close> as an index: the position of the last slash, if there is one.\<close>

definition last_slash :: "string \<Rightarrow> nat option" where
  "last_slash s =
     (if CHR ''/'' \<in> set s
      then Some (length s - Suc (length (takeWhile (\<lambda>c. c \<noteq> CHR ''/'') (rev s))))
      else None)"

text \<open>
  \<open>dirname\<close>, step by step as glibc does it. The last slash is found; when it ends the
  path (and is not its first character), the slashes that end the path are skipped and
  the last slash before them is taken, if the path does not consist of slashes only.
  Without a slash the result is \<open>"."\<close>. Otherwise the slashes right before the last
  slash are dropped too and the path is cut there; when nothing but slashes comes
  before the last slash, the result is \<open>"/"\<close>, or \<open>"//"\<close> when the last slash is the
  second character.
\<close>

definition dirname :: "string \<Rightarrow> string" where
  "dirname p =
     (case last_slash p of
        None \<Rightarrow> ''.''
      | Some l \<Rightarrow>
          (case (if l \<noteq> 0 \<and> Suc l = length p
                 then (let runp = length (strip_slashes (take l p))
                       in if runp \<noteq> 0 then last_slash (take runp p) else Some l)
                 else Some l) of
             None \<Rightarrow> ''.''
           | Some i \<Rightarrow>
               let runp = length (strip_slashes (take i p))
               in if runp = 0 then (if i = 1 then take 2 p else take 1 p)
                  else take runp p))"

text \<open>
  The polling loop \<open>for (;;)\<close> of the initial upload. It ends with \<open>False\<close> when a poll
  fails (the callback then returns -1), with \<open>True\<close> when a poll reports status 99.
  Nothing bounds the number of rounds: a remote that never reports 99 keeps the loop
  running, which is the value \<open>None\<close>. The \<open>sleep(1)\<close> between two polls is not modelled.
\<close>

partial_function (option) poll_loop ::
  "'w ext \<Rightarrow> string \<Rightarrow> 'w context_private \<Rightarrow> (bool \<times> 'w context_private) option" where
  "poll_loop x upload_key s =
     (case ext_call (Api_upload_poll_upload upload_key)
             (mfconn_api_upload_poll_upload x upload_key) s of
        ((retval, status, fileerror), s1) \<Rightarrow>
          if retval \<noteq> 0 then Some (False, s1)
          else if status = 99 then Some (True, s1)
          else poll_loop x upload_key s1)"

text \<open>
  \<open>mediafirefs_release\<close>. The handle \<open>fh\<close> is dereferenced unchecked. A read-only handle
  leaves \<open>sv_readonlyfiles\<close>; any other handle leaves \<open>sv_writefiles\<close>, and the process
  exits when the entry is missing or is still there after the removal. A local file is
  then uploaded (\<open>fdopen\<close>, \<open>rewind\<close>, \<open>mfconn_api_upload_simple\<close>, \<open>fclose\<close>) and polled
  for; any other writable file is closed and patched. \<open>free(openfile)\<close> takes the object
  out of the heap.
\<close>

definition mediafirefs_release ::
  "'w ext \<Rightarrow> string \<Rightarrow> fuse_file_info \<Rightarrow> 'w context_private
     \<Rightarrow> ('w context_private) outcome option" where
  "mediafirefs_release x p file_info ctx =
     (case heap ctx (fh file_info) of
        None \<Rightarrow> Some Fault
      | Some opf \<Rightarrow>
          if is_readonly opf then
            (case stringv_del (sv_readonlyfiles ctx) (path opf) of
               (r, sv) \<Rightarrow>
                 if r \<noteq> 0 then Some (Exit 1)
                 else
                   let s1 = ext_proc (Close (fd opf)) (close_fd x (fd opf))
                              (ctx\<lparr>sv_readonlyfiles := sv\<rparr>);
                       s2 = s1\<lparr>calls := calls s1 @ [Free (fh file_info)],
                               heap := (heap s1)(fh file_info := None)\<rparr>
                   in Some (Return 0 s2))
          else
            (case stringv_del (sv_writefiles ctx) (path opf) of
               (r, sv) \<Rightarrow>
                 if r \<noteq> 0 then Some (Exit 1)
                 else if stringv_mem sv (path opf) then Some (Exit 1)
                 else if is_local opf then
                   (let file_name = basename (path opf);
                        dir_name = dirname (path opf);
                        (folder_key, s1) =
                          ext_call (Folder_tree_path_get_key dir_name)
                            (folder_tree_path_get_key x dir_name) (ctx\<lparr>sv_writefiles := sv\<rparr>);
                        ((retval, upload_key), s2) =
                          ext_call (Api_upload_simple folder_key (fd opf) file_name)
                            (mfconn_api_upload_simple x folder_key (fd opf) file_name) s1;
                        s3 = ext_proc (Fclose (fd opf)) (close_fd x (fd opf)) s2;
                        s4 = s3\<lparr>calls := calls s3 @ [Free (fh file_info)],
                                heap := (heap s3)(fh file_info := None)\<rparr>
                    in case upload_key of
                         None \<Rightarrow> Some (Return (- EACCES) s4)
                       | Some k \<Rightarrow>
                           if retval \<noteq> 0 then Some (Return (- EACCES) s4)
                           else
                             (case poll_loop x k s4 of
                                None \<Rightarrow> None
                              | Some (False, s5) \<Rightarrow> Some (Return (- 1) s5)
                              | Some (True, s5) \<Rightarrow>
                                  Some (Return 0
                                    (ext_proc (Folder_tree_update True)
                                       (folder_tree_update x True) s5))))
                 else
                   (let s1 = ext_proc (Close (fd opf)) (close_fd x (fd opf))
                               (ctx\<lparr>sv_writefiles := sv\<rparr>);
                        (retval, s2) =
                          ext_call (Folder_tree_upload_patch (path opf))
                            (folder_tree_upload_patch x (path opf)) s1;
                        s3 = s2\<lparr>calls := calls s2 @ [Free (fh file_info)],
                                heap := (heap s2)(fh file_info := None)\<rparr>
                    in if retval \<noteq> 0 then Some (Return (- EACCES) s3)
                       else Some (Return 0
                              (ext_proc (Folder_tree_update True)
                                 (folder_tree_update x True) s3)))))"

section \<open>Creating a folder\<close>

subsection \<open>mfconn_api_folder_create\<close>

text \<open>
  \<^verbatim>\<open>folder_create.c\<close>. A parent key whose length is not 13 and that equals
  \<open>"myfiles"\<close> is replaced by \<open>NULL\<close>; the request carries \<open>parent_key\<close> only for a parent
  that is not \<open>NULL\<close> then. The two \<open>%s\<close> of the format are the strings as they are.
  The result is that of \<open>http_get_buf\<close> on the signed call (\<open>http_create\<close> and
  \<open>http_destroy\<close> around it keep no state of their own).
\<close>

definition mfconn_api_folder_create ::
  "'w ext \<Rightarrow> mfconn option \<Rightarrow> string option \<Rightarrow> string option \<Rightarrow> ('w, 'z) sys_scheme
     \<Rightarrow> int \<times> ('w, 'z) sys_scheme" where
  "mfconn_api_folder_create x mfconn parent name s =
     (case mfconn of
        None \<Rightarrow> (- 1, s)
      | Some c \<Rightarrow>
          (case name of
             None \<Rightarrow> (- 1, s)
           | Some n \<Rightarrow>
               if length n < 1 then (- 1, s)
               else
                 let parent1 =
                       (case parent of
                          None \<Rightarrow> None
                        | Some k \<Rightarrow>
                            if length k \<noteq> 13
                            then (if k = ''myfiles'' then None else Some k)
                            else Some k);
                     params =
                       (case parent1 of
                          Some k \<Rightarrow> ''?parent_key='' @ k @ ''&foldername='' @ n
                                      @ ''&response_format=json''
                        | None \<Rightarrow> ''?foldername='' @ n @ ''&response_format=json'');
                     (api_call, s1) =
                       ext_call (Create_signed_get c 0 ''folder/create.php'' params)
                         (mfconn_create_signed_get x c 0 ''folder/create.php'' params) s;
                     (retval, s2) = ext_call (Http_get_buf api_call) (http_get_buf x api_call) s1
                 in (retval, s2)))"

subsection \<open>mkdir\<close>

text \<open>
  \<open>strrchr(dirname, '/')\<close> with the two statements after it: the string is cut at its
  last slash into the part before and the part after; \<open>None\<close> when it has no slash.
\<close>

definition split_at_last_slash :: "string \<Rightarrow> (string \<times> string) option" where
  "split_at_last_slash d =
     (let r = rev d; b = takeWhile (\<lambda>c. c \<noteq> CHR ''/'') r
      in if length b = length r then None
         else Some (rev (drop (Suc (length b)) r), rev b))"

text \<open>
  \<open>mediafirefs_mkdir\<close>: \<open>mode\<close> is cast to void. The path's last character is read
  unchecked, so the empty path is a fault. The key of the parent is looked up unless the
  parent is the root, and is passed on as it comes back.
\<close>

definition mediafirefs_mkdir ::
  "'w ext \<Rightarrow> string \<Rightarrow> mode_t \<Rightarrow> 'w context_private \<Rightarrow> ('w context_private) outcome" where
  "mediafirefs_mkdir x p mode ctx =
     (if p = [] then Fault
      else
        let d0 = (if last p = CHR ''/'' then butlast p else p)
        in case split_at_last_slash d0 of
             None \<Rightarrow> Return (- ENOENT) ctx
           | Some (dir, base) \<Rightarrow>
               let (key, s1) =
                     (if dir = [] then (None, ctx)
                      else ext_call (Folder_tree_path_get_key dir)
                             (folder_tree_path_get_key x dir) ctx);
                   (retval, s2) = mfconn_api_folder_create x (conn s1) key (Some base) s1
               in if retval \<noteq> 0 then Return (- EAGAIN) s2
                  else Return 0
                         (ext_proc (Folder_tree_update True) (folder_tree_update x True) s2))"


section \<open>Concrete inputs\<close>

text \<open>
  The state at mount time: nothing is open, nothing has been called.
\<close>

definition initial_context :: "'w \<Rightarrow> 'w context_private" where
  "initial_context w =
     \<lparr>world = w, calls = [], conn = Some 1, sv_writefiles = [], sv_readonlyfiles = [],
      heap = (\<lambda>a. None)\<rparr>"

text \<open>
  One concrete environment on which the callbacks can be run. Its world is a counter
  of allocations, so that \<open>malloc\<close> hands out the addresses 1, 2, ... . Every remote call
  succeeds, an upload is complete at the first poll, the staged descriptors are 5 and
  6, and the catalog knows no path at all: \<open>folder_tree_getattr\<close> answers \<open>-ENOENT\<close>
  and \<open>folder_tree_path_get_key\<close> answers \<open>NULL\<close>.
\<close>

definition sample_ext :: "nat ext" where
  "sample_ext =
     \<lparr>folder_tree_update = (\<lambda>force w. w),
      folder_tree_getattr = (\<lambda>p st w. ((- 2, st), w)),
      folder_tree_path_get_key = (\<lambda>p w. (None, w)),
      folder_tree_open_file = (\<lambda>p fl may_refresh w. (5, w)),
      folder_tree_tmp_open = (\<lambda>w. (6, w)),
      folder_tree_upload_patch = (\<lambda>p w. (0, w)),
      mfconn_api_upload_simple = (\<lambda>key fdn name w. ((0, Some ''upload0''), w)),
      mfconn_api_upload_poll_upload = (\<lambda>key w. ((0, 99, 0), w)),
      mfconn_create_signed_get = (\<lambda>c r endpoint params w. (endpoint @ params, w)),
      http_get_buf = (\<lambda>url w. (0, w)),
      geteuid = (\<lambda>w. 1000),
      getegid = (\<lambda>w. 100),
      malloc = (\<lambda>w. (Suc w, Suc w)),
      close_fd = (\<lambda>fdn w. w),
      pread = (\<lambda>fdn n off w. ((0, []), w)),
      pwrite = (\<lambda>fdn buf off w. (int (length buf), w))\<rparr>"


text \<open>
  The sample environment with a remote whose upload poll fails.
\<close>

definition failing_poll_ext :: "nat ext" where
  "failing_poll_ext = sample_ext\<lparr>mfconn_api_upload_poll_upload := (\<lambda>key w. ((- 1, 0, 0), w))\<rparr>"

text \<open>
  Three states the sample environment reaches from the initial state \<open>initial_context 0\<close>:
  after a read-write open of \<open>/f\<close>, after a read-only open of \<open>/f\<close>, and after
  \<open>create\<close> of \<open>/f\<close>. In each, the one handle is at address 1.
\<close>

definition opened_rw :: "nat context_private" where
  "opened_rw =
     \<lparr>world = 1, calls = [Folder_tree_open_file ''/f'' O_RDWR True, Malloc], conn = Some 1,
      sv_writefiles = [''/f''], sv_readonlyfiles = [],
      heap = (\<lambda>a. None)(1 \<mapsto>
               \<lparr>fd = 5, path = ''/f'', is_readonly = False, is_local = False\<rparr>)\<rparr>"

definition opened_ro :: "nat context_private" where
  "opened_ro =
     \<lparr>world = 1, calls = [Folder_tree_open_file ''/f'' O_RDONLY True, Malloc], conn = Some 1,
      sv_writefiles = [], sv_readonlyfiles = [''/f''],
      heap = (\<lambda>a. None)(1 \<mapsto>
               \<lparr>fd = 5, path = ''/f'', is_readonly = True, is_local = False\<rparr>)\<rparr>"

definition created :: "nat context_private" where
  "created =
     \<lparr>world = 1, calls = [Folder_tree_tmp_open, Malloc], conn = Some 1,
      sv_writefiles = [''/f''], sv_readonlyfiles = [],
      heap = (\<lambda>a. None)(1 \<mapsto>
               \<lparr>fd = 6, path = ''/f'', is_readonly = False, is_local = True\<rparr>)\<rparr>"

text \<open>A \<open>struct stat\<close> with every field zero, as the host passes it to getattr.\<close>

definition zero_stat :: stat where
  "zero_stat =
     \<lparr>st_uid = 0, st_gid = 0, st_ctime = 0, st_mtime = 0, st_mode = 0, st_nlink = 0,
      st_atime = 0, st_size = 0\<rparr>"

section \<open>File objects (file.c)\<close>

text \<open>
  A \<open>char\<close> buffer is the list of its bytes. The C string in a buffer is what comes
  before its first NUL byte (\<open>c_str\<close>); \<open>strlen\<close> is its length. \<open>memset\<close> writes
  \<open>n\<close> bytes \<open>c\<close>; \<open>strncpy\<close> writes exactly \<open>n\<close> bytes, the string first and NUL bytes
  after it, and no terminator when the string has \<open>n\<close> bytes or more.
\<close>

definition NUL :: char where "NUL = CHR 0x00"

definition c_str :: "char list \<Rightarrow> string" where
  "c_str buf = takeWhile (\<lambda>c. c \<noteq> NUL) buf"

definition strlen :: "char list \<Rightarrow> nat" where
  "strlen buf = length (c_str buf)"

definition memset :: "char list \<Rightarrow> char \<Rightarrow> nat \<Rightarrow> char list" where
  "memset dst c n = replicate n c @ drop n dst"

definition strncpy :: "char list \<Rightarrow> char list \<Rightarrow> nat \<Rightarrow> char list" where
  "strncpy dst src n = take n (c_str src @ replicate n NUL) @ drop n dst"

text \<open>
  \<open>struct _file_s\<close> (\<open>struct mffile\<close> in the second copy of the file): four arrays of
  18, 65, 256 and 16 bytes, the revision, and three strings that may be \<open>NULL\<close>.
\<close>

record mffile =
  quickkey :: "char list"
  hash :: "char list"
  name :: "char list"
  mtime :: "char list"
  revision :: "64 word"
  share_link :: "string option"
  direct_link :: "string option"
  onetime_link :: "string option"

text \<open>The object \<open>file_alloc\<close> returns when \<open>calloc\<close> succeeds: every byte is zero.\<close>

definition file_alloc :: "mffile" where
  "file_alloc =
     \<lparr>quickkey = replicate 18 NUL, hash = replicate 65 NUL, name = replicate 256 NUL,
      mtime = replicate 16 NUL, revision = 0, share_link = None, direct_link = None,
      onetime_link = None\<rparr>"

text \<open>
  \<open>file_set_key\<close> and \<open>file_get_key\<close>, the same in both copies of the file. The file and
  the key may be \<open>NULL\<close>. \<open>sizeof(file->quickkey)\<close> is 18. \<open>len\<close> is a C \<open>int\<close>: the
  \<open>size_t\<close> that \<open>strlen\<close> returns is narrowed to 32 bits, read as two's complement, so
  the lengths the test sees are those modulo \<open>2^32\<close>. \<open>file_get_key\<close> returns the array
  itself; what the caller reads through it is its \<open>c_str\<close>.
\<close>

definition file_set_key :: "mffile option \<Rightarrow> char list option \<Rightarrow> int \<times> mffile option" where
  "file_set_key file key =
     (case file of
        None \<Rightarrow> (- 1, file)
      | Some f \<Rightarrow>
          (case key of
             None \<Rightarrow> (- 1, file)
           | Some k \<Rightarrow>
               let len = sint (word_of_nat (strlen k) :: 32 word)
               in if len \<noteq> 11 \<and> len \<noteq> 15 then (- 1, file)
                  else (0, Some (f\<lparr>quickkey := strncpy (memset (quickkey f) NUL 18) k 17\<rparr>))))"

definition file_get_key :: "mffile option \<Rightarrow> char list option" where
  "file_get_key file = (case file of None \<Rightarrow> None | Some f \<Rightarrow> Some (quickkey f))"

section \<open>A model of the folder tree and the remote\<close>

text \<open>
  Modelled from the spec: \<^verbatim>\<open>folder_tree.c\<close>, the upload calls of the remote API and the
  remote itself are not among the sources. The state they share is modelled as follows.
  \<^item> \<open>folder_keys\<close>: the catalog's folders, from a folder path to its folder key
    (\<open>path_get_key\<close> resolves folder paths only).
  \<^item> \<open>catalog\<close>: the files the catalog knows, each by the key of its parent folder and
    its name; it is what the last update has seen.
  \<^item> \<open>remote_files\<close>: the remote store, from parent folder key and name to the bytes.
  \<^item> \<open>remote_ok\<close>: whether the remote answers; \<open>pending\<close>: the uploads the remote has
    accepted and not yet completed, by upload key, each with the place and the bytes
    of its file; \<open>upload_delay\<close>: how many polls report a status other than 99 before
    an upload is complete.
  \<^item> \<open>staging\<close>: the staging files, each holding the working copy of a file's contents;
    \<open>path_staging\<close>: the staging file materialized for a path; \<open>descriptors\<close>: the open
    descriptors, each on a staging file.
  \<^item> counters for fresh staging files, descriptors and heap addresses, and the effective
    uid and gid of the process.
\<close>

record store =
  folder_keys :: "string \<Rightarrow> string option"
  catalog :: "string \<times> string \<Rightarrow> bool"
  remote_files :: "string \<times> string \<Rightarrow> char list option"
  remote_ok :: bool
  pending :: "string \<Rightarrow> ((string \<times> string) \<times> char list) option"
  upload_delay :: nat
  staging :: "nat \<Rightarrow> char list option"
  path_staging :: "string \<Rightarrow> nat option"
  descriptors :: "int \<Rightarrow> nat option"
  next_staging :: nat
  next_fd :: nat
  next_addr :: nat
  euid :: nat
  egid :: nat

text \<open>
  Modelled from the spec: resolving the path of a file walks to its folder and looks the
  name up among the folder's files in the catalog.
\<close>

definition resolve_file :: "store \<Rightarrow> string \<Rightarrow> (string \<times> string) option" where
  "resolve_file w p =
     (case folder_keys w (dirname p) of
        None \<Rightarrow> None
      | Some k \<Rightarrow> if catalog w (k, basename p) then Some (k, basename p) else None)"

text \<open>
  Modelled from the spec: \<open>update\<close> pulls the remote's changes, after which the catalog
  shows what the remote holds; when the remote cannot be reached the catalog stays as
  it is. A non-forced update may debounce; this one never does.
\<close>

definition store_update :: "bool \<Rightarrow> store \<Rightarrow> store" where
  "store_update force w =
     (if remote_ok w then w\<lparr>catalog := (\<lambda>kn. remote_files w kn \<noteq> None)\<rparr> else w)"

text \<open>
  Modelled from the spec: \<open>getattr\<close> reports a folder with mode \<open>S_IFDIR | 0755\<close>, a file
  with \<open>S_IFREG | 0644\<close> and its size, both with link count 1, and fails with not-found
  for a path that does not resolve.
\<close>

definition S_IFDIR :: "32 word" where "S_IFDIR = 0x4000"
definition perm_0755 :: "32 word" where "perm_0755 = 0x1ED"

definition store_getattr :: "string \<Rightarrow> stat \<Rightarrow> store \<Rightarrow> (int \<times> stat) \<times> store" where
  "store_getattr p stbuf w =
     (case folder_keys w p of
        Some k \<Rightarrow>
          ((0, stbuf\<lparr>st_uid := euid w, st_gid := egid w, st_mode := S_IFDIR OR perm_0755,
                    st_nlink := 1\<rparr>), w)
      | None \<Rightarrow>
          (case resolve_file w p of
             None \<Rightarrow> ((- ENOENT, stbuf), w)
           | Some kn \<Rightarrow>
               ((0, stbuf\<lparr>st_uid := euid w, st_gid := egid w, st_mode := S_IFREG OR perm_0644,
                         st_nlink := 1,
                         st_size := (case remote_files w kn of
                                       None \<Rightarrow> 0 | Some content \<Rightarrow> int (length content))\<rparr>),
                w)))"

text \<open>
  Modelled from the spec: \<open>tmp_open\<close> allocates a fresh empty staging file and returns a
  descriptor to it.
\<close>

definition new_descriptor :: "nat \<Rightarrow> store \<Rightarrow> int \<times> store" where
  "new_descriptor file w =
     (int (next_fd w),
      w\<lparr>descriptors := (descriptors w)(int (next_fd w) \<mapsto> file), next_fd := Suc (next_fd w)\<rparr>)"

definition new_staging :: "char list \<Rightarrow> store \<Rightarrow> nat \<times> store" where
  "new_staging content w =
     (next_staging w,
      w\<lparr>staging := (staging w)(next_staging w \<mapsto> content),
        next_staging := Suc (next_staging w)\<rparr>)"

definition store_tmp_open :: "store \<Rightarrow> int \<times> store" where
  "store_tmp_open w = (case new_staging [] w of (file, w1) \<Rightarrow> new_descriptor file w1)"

text \<open>
  Modelled from the spec: \<open>open_file\<close> fails with not-found for a path that does not
  resolve. When it may refresh, the file's current contents are fetched from the remote
  and materialized into a staging file (access is denied if the remote refuses);
  otherwise the existing staging file of the path is reused.
\<close>

definition store_open_file :: "string \<Rightarrow> 32 word \<Rightarrow> bool \<Rightarrow> store \<Rightarrow> int \<times> store" where
  "store_open_file p fl may_refresh w =
     (case resolve_file w p of
        None \<Rightarrow> (- ENOENT, w)
      | Some kn \<Rightarrow>
          if may_refresh then
            (case (if remote_ok w then remote_files w kn else None) of
               None \<Rightarrow> (- EACCES, w)
             | Some content \<Rightarrow>
                 (case new_staging content w of
                    (file, w1) \<Rightarrow> new_descriptor file (w1\<lparr>path_staging := (path_staging w1)(p \<mapsto> file)\<rparr>)))
          else
            (case path_staging w p of
               None \<Rightarrow> (- ENOENT, w)
             | Some file \<Rightarrow> new_descriptor file w))"

text \<open>The bytes behind a descriptor.\<close>

definition fd_content :: "store \<Rightarrow> int \<Rightarrow> char list option" where
  "fd_content w fdn =
     (case descriptors w fdn of None \<Rightarrow> None | Some file \<Rightarrow> staging w file)"

text \<open>
  Modelled from the spec: \<open>upload_simple\<close> hands the bytes behind the descriptor to the
  remote, as a file of the given name in the folder the parent key designates (a nil
  key designates the account root, as \<open>"myfiles"\<close> does), and returns an upload key. The
  upload is asynchronous: the file is in the remote store once a poll reports the
  terminal status 99 (\<open>publish\<close>). \<open>upload_patch\<close> stores the staged bytes of a path as
  the file's new contents.
\<close>

definition designated_folder :: "string option \<Rightarrow> string" where
  "designated_folder key = (case key of None \<Rightarrow> ''myfiles'' | Some k \<Rightarrow> k)"

definition store_upload_simple ::
  "string option \<Rightarrow> int \<Rightarrow> string \<Rightarrow> store \<Rightarrow> (int \<times> string option) \<times> store" where
  "store_upload_simple key fdn nm w =
     (case (if remote_ok w then fd_content w fdn else None) of
        None \<Rightarrow> ((- 1, None), w)
      | Some content \<Rightarrow>
          ((0, Some nm),
           w\<lparr>pending := (pending w)(nm \<mapsto> ((designated_folder key, nm), content))\<rparr>))"

definition publish :: "string \<Rightarrow> store \<Rightarrow> store" where
  "publish key w =
     (case pending w key of
        None \<Rightarrow> w
      | Some (kn, content) \<Rightarrow>
          w\<lparr>remote_files := (remote_files w)(kn \<mapsto> content),
            pending := (pending w)(key := None)\<rparr>)"

definition store_upload_poll :: "string \<Rightarrow> store \<Rightarrow> (int \<times> int \<times> int) \<times> store" where
  "store_upload_poll key w =
     (if \<not> remote_ok w then ((- 1, 0, 0), w)
      else if upload_delay w = 0 then ((0, 99, 0), publish key w)
      else ((0, 0, 0), w\<lparr>upload_delay := upload_delay w - 1\<rparr>))"

definition store_upload_patch :: "string \<Rightarrow> store \<Rightarrow> int \<times> store" where
  "store_upload_patch p w =
     (case (resolve_file w p, path_staging w p) of
        (Some kn, Some file) \<Rightarrow>
          (case (if remote_ok w then staging w file else None) of
             None \<Rightarrow> (- 1, w)
           | Some content \<Rightarrow> (0, w\<lparr>remote_files := (remote_files w)(kn \<mapsto> content)\<rparr>))
      | _ \<Rightarrow> (- 1, w))"

text \<open>
  The C library's \<open>pwrite\<close> and \<open>pread\<close> on a staging file: a write at an offset replaces
  the bytes there and extends the file (with zero bytes up to the offset) as needed; a
  read gives the bytes from the offset on, at most as many as asked for.
\<close>

definition store_pwrite :: "int \<Rightarrow> char list \<Rightarrow> int \<Rightarrow> store \<Rightarrow> int \<times> store" where
  "store_pwrite fdn buf off w =
     (case descriptors w fdn of
        None \<Rightarrow> (- 1, w)
      | Some file \<Rightarrow>
          (case staging w file of
             None \<Rightarrow> (- 1, w)
           | Some old \<Rightarrow>
               if off < 0 then (- 1, w)
               else
                 let pos = nat off;
                     padded = old @ replicate (pos - length old) NUL
                 in (int (length buf),
                     w\<lparr>staging := (staging w)(file \<mapsto>
                          take pos padded @ buf @ drop (pos + length buf) padded)\<rparr>)))"

definition store_pread :: "int \<Rightarrow> nat \<Rightarrow> int \<Rightarrow> store \<Rightarrow> (int \<times> char list) \<times> store" where
  "store_pread fdn n off w =
     (case fd_content w fdn of
        None \<Rightarrow> ((- 1, []), w)
      | Some content \<Rightarrow>
          if off < 0 then ((- 1, []), w)
          else ((int (length (take n (drop (nat off) content))),
                 take n (drop (nat off) content)), w))"

text \<open>
  The environment over the store. The signed request and \<open>http_get_buf\<close> (used for folder
  creation only) are answered without changing the store.
\<close>

definition store_ext :: "store ext" where
  "store_ext =
     \<lparr>folder_tree_update = store_update,
      folder_tree_getattr = store_getattr,
      folder_tree_path_get_key = (\<lambda>p w. (folder_keys w p, w)),
      folder_tree_open_file = store_open_file,
      folder_tree_tmp_open = store_tmp_open,
      folder_tree_upload_patch = store_upload_patch,
      mfconn_api_upload_simple = store_upload_simple,
      mfconn_api_upload_poll_upload = store_upload_poll,
      mfconn_create_signed_get = (\<lambda>c r endpoint params w. (endpoint @ params, w)),
      http_get_buf = (\<lambda>url w. (if remote_ok w then 0 else - 1, w)),
      geteuid = euid,
      getegid = egid,
      malloc = (\<lambda>w. (Suc (next_addr w), w\<lparr>next_addr := Suc (next_addr w)\<rparr>)),
      close_fd = (\<lambda>fdn w. w\<lparr>descriptors := (descriptors w)(fdn := None)\<rparr>),
      pread = store_pread,
      pwrite = store_pwrite\<rparr>"

text \<open>
  A store with the root, one folder \<open>/docs\<close> and no file, whose uploads need two polls.
\<close>

definition demo_store :: store where
  "demo_store =
     \<lparr>folder_keys = (\<lambda>p. if p = ''/'' then Some ''myfiles''
                         else if p = ''/docs'' then Some ''k2345678901'' else None),
      catalog = (\<lambda>kn. False), remote_files = (\<lambda>kn. None), remote_ok = True,
      pending = (\<lambda>key. None), upload_delay = 2,
      staging = (\<lambda>n. None), path_staging = (\<lambda>p. None), descriptors = (\<lambda>n. None),
      next_staging = 0, next_fd = 3, next_addr = 0, euid = 1000, egid = 100\<rparr>"




section \<open>Predicates on the open-handle census\<close>

text \<open>
  The number of entries a path has in \<open>sv_writefiles\<close> (the spec's \<open>writable_open\<close>) and
  in \<open>sv_readonlyfiles\<close> (\<open>readonly_open\<close>) is \<open>count_list\<close>. \<open>census_ok\<close> is the state
  predicate of the spec for one path; \<open>writable_once\<close> is its first conjunct alone.
\<close>

definition census_ok :: "'w context_private \<Rightarrow> string \<Rightarrow> bool" where
  "census_ok ctx P =
     (count_list (sv_writefiles ctx) P \<le> 1
      \<and> (0 < count_list (sv_writefiles ctx) P \<longrightarrow> count_list (sv_readonlyfiles ctx) P = 0)
      \<and> (0 < count_list (sv_readonlyfiles ctx) P \<longrightarrow> count_list (sv_writefiles ctx) P = 0))"

definition writable_once :: "'w context_private \<Rightarrow> string \<Rightarrow> bool" where
  "writable_once ctx P = (count_list (sv_writefiles ctx) P \<le> 1)"

text \<open>Two states with the same string vectors and the same heap.\<close>

definition same_census :: "'w context_private \<Rightarrow> 'w context_private \<Rightarrow> bool" where
  "same_census s s' =
     (sv_writefiles s' = sv_writefiles s \<and> sv_readonlyfiles s' = sv_readonlyfiles s
      \<and> heap s' = heap s)"

section \<open>Properties\<close>

subsection \<open>External calls leave the census alone\<close>

lemma ext_call_frame:
  "ext_call c f (s :: 'w context_private) = (r, s') \<Longrightarrow>
     sv_writefiles s' = sv_writefiles s \<and> sv_readonlyfiles s' = sv_readonlyfiles s
     \<and> heap s' = heap s \<and> conn s' = conn s"
  by (auto simp: ext_call_def split: prod.splits)

lemma same_census_ext_call:
  "ext_call c f (s :: 'w context_private) = (r, s') \<Longrightarrow> same_census s s'"
  by (auto simp: same_census_def dest: ext_call_frame)

lemma same_census_trans: "same_census a b \<Longrightarrow> same_census b c \<Longrightarrow> same_census a c"
  by (simp add: same_census_def)

text \<open>The polling loop, when it ends, has changed the world and the log only.\<close>

lemma poll_loop_frame:
  fixes x :: "'w ext"
  assumes "poll_loop x k s = Some (b, s')"
  shows "same_census s s'"
proof (rule poll_loop.raw_induct
    [where P = "\<lambda>x k s y. same_census s (snd y)" and xa = "((x, k), s)" and y = "(b, s')",
      simplified, OF _ assms])
  fix poll :: "'w ext \<Rightarrow> string \<Rightarrow> 'w context_private \<Rightarrow> (bool \<times> 'w context_private) option"
  fix x k s xa
  assume IH: "\<And>k s b y. poll k s b = Some y \<Longrightarrow> same_census b (snd y)"
  assume body:
    "(case ext_call (Api_upload_poll_upload k) (mfconn_api_upload_poll_upload x k) s of
        ((retval, status, fileerror), s1) \<Rightarrow>
          if retval \<noteq> 0 then Some (False, s1)
          else if status = 99 then Some (True, s1)
          else poll x k s1) = Some xa"
  obtain retval status fileerror s1 where
    e: "ext_call (Api_upload_poll_upload k) (mfconn_api_upload_poll_upload x k) s
          = ((retval, status, fileerror), s1)"
    by (metis prod.exhaust)
  have s1: "same_census s s1" using e by (rule same_census_ext_call)
  show "same_census s (snd xa)"
  proof (cases "retval \<noteq> 0 \<or> status = 99")
    case True
    with body e have "snd xa = s1" by (auto split: if_splits)
    with s1 show ?thesis by simp
  next
    case False
    with body e have "poll x k s1 = Some xa" by simp
    then have "same_census s1 (snd xa)" by (rule IH)
    with s1 show ?thesis by (rule same_census_trans)
  qed
qed

lemma poll_loop_census:
  "poll_loop x k s = Some (b, s') \<Longrightarrow>
     sv_writefiles s' = sv_writefiles s \<and> sv_readonlyfiles s' = sv_readonlyfiles s
     \<and> heap s' = heap s"
  using poll_loop_frame [of x k s b s'] by (simp add: same_census_def)

subsection \<open>Runs in the sample environment\<close>

lemma sample_ext_sel:
  "folder_tree_update sample_ext = (\<lambda>force w. w)"
  "folder_tree_getattr sample_ext = (\<lambda>p st w. ((- 2, st), w))"
  "folder_tree_path_get_key sample_ext = (\<lambda>p w. (None, w))"
  "folder_tree_open_file sample_ext = (\<lambda>p fl may_refresh w. (5, w))"
  "folder_tree_tmp_open sample_ext = (\<lambda>w. (6, w))"
  "folder_tree_upload_patch sample_ext = (\<lambda>p w. (0, w))"
  "mfconn_api_upload_simple sample_ext = (\<lambda>key fdn name w. ((0, Some ''upload0''), w))"
  "mfconn_api_upload_poll_upload sample_ext = (\<lambda>key w. ((0, 99, 0), w))"
  "mfconn_create_signed_get sample_ext = (\<lambda>c r endpoint params w. (endpoint @ params, w))"
  "http_get_buf sample_ext = (\<lambda>url w. (0, w))"
  "geteuid sample_ext = (\<lambda>w. 1000)"
  "getegid sample_ext = (\<lambda>w. 100)"
  "malloc sample_ext = (\<lambda>w. (Suc w, Suc w))"
  "close_fd sample_ext = (\<lambda>fdn w. w)"
  "pread sample_ext = (\<lambda>fdn n off w. ((0, []), w))"
  "pwrite sample_ext = (\<lambda>fdn buf off w. (int (length buf), w))"
  by (simp_all add: sample_ext_def)

lemmas sample_eval =
  sample_ext_sel initial_context_def stringv_mem_def stringv_add_def stringv_del_def
  ext_call_def ext_proc_def O_RDWR_def O_WRONLY_def O_ACCMODE_def O_RDONLY_def

lemma poll_loop_sample:
  "poll_loop sample_ext k s = Some (True, s\<lparr>calls := calls s @ [Api_upload_poll_upload k]\<rparr>)"
  by (subst poll_loop.simps) (simp add: sample_ext_sel ext_call_def)

lemma open_rw_sample:
  "mediafirefs_open sample_ext ''/f'' \<lparr>flags = O_RDWR, fh = 0\<rparr> (initial_context 0)
     = Return 0 (\<lparr>flags = O_RDWR, fh = 1\<rparr>, opened_rw)"
  by (simp add: mediafirefs_open_def opened_rw_def sample_eval)

lemma open_ro_sample:
  "mediafirefs_open sample_ext ''/f'' \<lparr>flags = O_RDONLY, fh = 0\<rparr> (initial_context 0)
     = Return 0 (\<lparr>flags = O_RDONLY, fh = 1\<rparr>, opened_ro)"
  by (simp add: mediafirefs_open_def opened_ro_def sample_eval)

lemma create_sample:
  "mediafirefs_create sample_ext ''/f'' m \<lparr>flags = O_WRONLY, fh = 0\<rparr> (initial_context 0)
     = Return 0 (\<lparr>flags = O_WRONLY, fh = 1\<rparr>, created)"
  by (simp add: mediafirefs_create_def created_def sample_eval)

lemma path_parts:
  "dirname ''/f'' = ''/''" "basename ''/f'' = ''f''"
  "dirname ''/docs/a.txt'' = ''/docs''" "basename ''/docs/a.txt'' = ''a.txt''"
  by (simp_all add: dirname_def basename_def last_slash_def strip_slashes_def)

lemma release_created_sample:
  "mediafirefs_release sample_ext ''/f'' \<lparr>flags = O_WRONLY, fh = 1\<rparr> created
     = Some (Return 0
         \<lparr>world = 1,
          calls = [Folder_tree_tmp_open, Malloc, Folder_tree_path_get_key ''/'',
                   Api_upload_simple None 6 ''f'', Fclose 6, Free 1,
                   Api_upload_poll_upload ''upload0'', Folder_tree_update True],
          conn = Some 1, sv_writefiles = [], sv_readonlyfiles = [], heap = (\<lambda>a. None)\<rparr>)"
  by (simp add: mediafirefs_release_def created_def path_parts poll_loop_sample sample_eval
      fun_eq_iff)

subsection \<open>Opening for writing\<close>

text \<open>
  C1 (as amended). For every path and every open request in write-only or read-write
  mode, if the path has an entry in \<open>sv_writefiles\<close> (a writable handle is open on it),
  then \<open>mediafirefs_open\<close> returns \<open>-EACCES\<close> and leaves the whole state as it was: both
  string vectors, the heap, the world, and no external call is made.
\<close>

theorem open_writable_denied_when_writable_open:
  "(flags fi AND O_ACCMODE) \<noteq> O_RDONLY \<Longrightarrow> stringv_mem (sv_writefiles ctx) p \<Longrightarrow>
     mediafirefs_open x p fi ctx = Return (- EACCES) (fi, ctx)"
  by (simp add: mediafirefs_open_def)

text \<open>
  The witness: after a read-write open of \<open>/f\<close>, a write-only open of \<open>/f\<close> is refused.
\<close>

theorem open_writable_denied_when_writable_open_witness:
  "mediafirefs_open sample_ext ''/f'' \<lparr>flags = O_RDWR, fh = 0\<rparr> (initial_context 0)
     = Return 0 (\<lparr>flags = O_RDWR, fh = 1\<rparr>, opened_rw)
   \<and> (flags \<lparr>flags = O_WRONLY, fh = 0\<rparr> AND O_ACCMODE) \<noteq> O_RDONLY
   \<and> stringv_mem (sv_writefiles opened_rw) ''/f''
   \<and> mediafirefs_open sample_ext ''/f'' \<lparr>flags = O_WRONLY, fh = 0\<rparr> opened_rw
      = Return (- 13) (\<lparr>flags = O_WRONLY, fh = 0\<rparr>, opened_rw)"
  (is "?R \<and> ?F \<and> ?M \<and> ?D")
proof -
  have F: ?F by (simp add: O_WRONLY_def O_ACCMODE_def O_RDONLY_def)
  have M: ?M by (simp add: opened_rw_def stringv_mem_def)
  have D: ?D
    using open_writable_denied_when_writable_open [OF F M, of sample_ext]
    by (simp add: EACCES_def)
  from open_rw_sample F M D show ?thesis by (intro conjI)
qed

text \<open>
  C1 as stated fails: after a read-only open of \<open>/f\<close> (one read-only handle, no writable
  one), a read-write open of \<open>/f\<close> is not refused. It asks \<open>folder_tree_open_file\<close> for the
  staged copy without a refresh, returns 0 and adds \<open>/f\<close> to \<open>sv_writefiles\<close>.
\<close>

theorem open_writable_over_readonly_counterexample:
  "mediafirefs_open sample_ext ''/f'' \<lparr>flags = O_RDONLY, fh = 0\<rparr> (initial_context 0)
     = Return 0 (\<lparr>flags = O_RDONLY, fh = 1\<rparr>, opened_ro)
   \<and> stringv_mem (sv_readonlyfiles opened_ro) ''/f''
   \<and> mediafirefs_open sample_ext ''/f'' \<lparr>flags = O_RDWR, fh = 0\<rparr> opened_ro
      = Return 0 (\<lparr>flags = O_RDWR, fh = 2\<rparr>,
          \<lparr>world = 2,
           calls = [Folder_tree_open_file ''/f'' O_RDONLY True, Malloc,
                    Folder_tree_open_file ''/f'' O_RDWR False, Malloc],
           conn = Some 1, sv_writefiles = [''/f''], sv_readonlyfiles = [''/f''],
           heap = ((\<lambda>a. None)(1 \<mapsto>
                    \<lparr>fd = 5, path = ''/f'', is_readonly = True, is_local = False\<rparr>))
                  (2 \<mapsto> \<lparr>fd = 5, path = ''/f'', is_readonly = False, is_local = False\<rparr>)\<rparr>)"
  by (simp add: open_ro_sample)
    (simp add: mediafirefs_open_def opened_ro_def sample_eval numeral_2_eq_2)

subsection \<open>The census invariant\<close>

lemma count_list_remove1_le: "count_list (remove1 q xs) P \<le> count_list xs P"
  by (induction xs) auto

lemma count_list_notin: "p \<notin> set xs \<Longrightarrow> count_list xs p = 0"
  by (induction xs) auto

lemma count_list_snoc_fresh:
  "q \<notin> set xs \<Longrightarrow> count_list xs P \<le> 1 \<Longrightarrow> count_list (xs @ [q]) P \<le> 1"
  by (cases "q = P") (auto simp: count_list_notin)

text \<open>What each callback can do to \<open>sv_writefiles\<close> when it returns.\<close>

lemma open_writefiles:
  assumes "mediafirefs_open x q fi ctx = Return r (fi', ctx')"
  shows "sv_writefiles ctx' = sv_writefiles ctx
         \<or> (q \<notin> set (sv_writefiles ctx) \<and> sv_writefiles ctx' = sv_writefiles ctx @ [q])"
  using assms
  by (auto simp: mediafirefs_open_def Let_def stringv_mem_def stringv_add_def
      split: if_splits prod.splits dest!: ext_call_frame)

lemma create_writefiles:
  assumes "mediafirefs_create x q m fi ctx = Return r (fi', ctx')"
  shows "sv_writefiles ctx' = sv_writefiles ctx \<or> sv_writefiles ctx' = sv_writefiles ctx @ [q]"
  using assms
  by (auto simp: mediafirefs_create_def Let_def stringv_add_def
      split: if_splits prod.splits dest!: ext_call_frame)

lemma release_writefiles:
  assumes "mediafirefs_release x q fi ctx = Some (Return r ctx')"
  shows "sv_writefiles ctx' = sv_writefiles ctx
         \<or> (\<exists>p. sv_writefiles ctx' = remove1 p (sv_writefiles ctx))"
  using assms
  by (auto simp: mediafirefs_release_def Let_def stringv_del_def ext_proc_def
      split: option.splits if_splits prod.splits bool.splits
      dest!: ext_call_frame poll_loop_census)

text \<open>
  C2 (as amended). For every path \<open>P\<close>, the path has at most one entry in
  \<open>sv_writefiles\<close>: this holds in the initial state (both vectors empty) and is
  preserved by every \<open>mediafirefs_open\<close> and every \<open>mediafirefs_release\<close> that returns, and
  by every \<open>mediafirefs_create\<close> of a path that has no entry in \<open>sv_writefiles\<close> (the host
  calls create only for a path that getattr reported missing). Nothing is said about
  read-only and writable entries excluding each other.
\<close>

theorem writable_once_preserved:
  fixes x :: "'w ext" and w :: 'w
  shows "writable_once (initial_context w) P
    \<and> (\<forall>q fi ctx r fi' ctx'. writable_once ctx P \<longrightarrow>
          mediafirefs_open x q fi ctx = Return r (fi', ctx') \<longrightarrow> writable_once ctx' P)
    \<and> (\<forall>q fi ctx r ctx'. writable_once ctx P \<longrightarrow>
          mediafirefs_release x q fi ctx = Some (Return r ctx') \<longrightarrow> writable_once ctx' P)
    \<and> (\<forall>q m fi ctx r fi' ctx'. writable_once ctx P \<longrightarrow> \<not> stringv_mem (sv_writefiles ctx) q \<longrightarrow>
          mediafirefs_create x q m fi ctx = Return r (fi', ctx') \<longrightarrow> writable_once ctx' P)"
proof (intro conjI allI impI)
  show "writable_once (initial_context w) P"
    by (simp add: writable_once_def initial_context_def)
next
  fix q fi ctx r fi' ctx'
  assume inv: "writable_once ctx P"
    and run: "mediafirefs_open x q fi ctx = Return r (fi', ctx')"
  from open_writefiles [OF run] inv show "writable_once ctx' P"
    by (auto simp: writable_once_def intro: count_list_snoc_fresh)
next
  fix q fi ctx r ctx'
  assume inv: "writable_once ctx P"
    and run: "mediafirefs_release x q fi ctx = Some (Return r ctx')"
  from release_writefiles [OF run] inv show "writable_once ctx' P"
    using count_list_remove1_le [of _ "sv_writefiles ctx" P]
    by (auto simp: writable_once_def intro: order_trans)
next
  fix q m fi ctx r fi' ctx'
  assume inv: "writable_once ctx P"
    and fresh: "\<not> stringv_mem (sv_writefiles ctx) q"
    and run: "mediafirefs_create x q m fi ctx = Return r (fi', ctx')"
  from create_writefiles [OF run] inv fresh show "writable_once ctx' P"
    by (auto simp: writable_once_def stringv_mem_def intro: count_list_snoc_fresh)
qed

text \<open>
  The witness: from the initial state, \<open>create\<close> of \<open>/f\<close>, then the release of its handle,
  and a read-write open of \<open>/f\<close>; the predicate holds for \<open>/f\<close> in every state on the way.
\<close>

theorem writable_once_preserved_witness:
  "writable_once (initial_context (0::nat)) ''/f''
   \<and> \<not> stringv_mem (sv_writefiles (initial_context (0::nat))) ''/f''
   \<and> mediafirefs_create sample_ext ''/f'' 0 \<lparr>flags = O_WRONLY, fh = 0\<rparr> (initial_context 0)
      = Return 0 (\<lparr>flags = O_WRONLY, fh = 1\<rparr>, created)
   \<and> writable_once created ''/f''
   \<and> mediafirefs_release sample_ext ''/f'' \<lparr>flags = O_WRONLY, fh = 1\<rparr> created
      = Some (Return 0
          \<lparr>world = 1,
           calls = [Folder_tree_tmp_open, Malloc, Folder_tree_path_get_key ''/'',
                    Api_upload_simple None 6 ''f'', Fclose 6, Free 1,
                    Api_upload_poll_upload ''upload0'', Folder_tree_update True],
           conn = Some 1, sv_writefiles = [], sv_readonlyfiles = [], heap = (\<lambda>a. None)\<rparr>)
   \<and> writable_once
        \<lparr>world = (1::nat),
         calls = [Folder_tree_tmp_open, Malloc, Folder_tree_path_get_key ''/'',
                  Api_upload_simple None 6 ''f'', Fclose 6, Free 1,
                  Api_upload_poll_upload ''upload0'', Folder_tree_update True],
         conn = Some 1, sv_writefiles = [], sv_readonlyfiles = [], heap = (\<lambda>a. None)\<rparr> ''/f''
   \<and> mediafirefs_open sample_ext ''/f'' \<lparr>flags = O_RDWR, fh = 0\<rparr> (initial_context 0)
      = Return 0 (\<lparr>flags = O_RDWR, fh = 1\<rparr>, opened_rw)
   \<and> writable_once opened_rw ''/f''"
  (is "?I0 \<and> ?F \<and> ?C \<and> ?IA \<and> ?R \<and> ?IB \<and> ?O \<and> ?IC")
proof -
  note inv = writable_once_preserved [of "0::nat" "''/f''" sample_ext]
  have I0: ?I0 using inv by blast
  have F: ?F by (simp add: initial_context_def stringv_mem_def)
  have C: ?C by (rule create_sample)
  have R: ?R by (rule release_created_sample)
  have O: ?O by (rule open_rw_sample)
  have "\<And>q m fi ctx r fi' ctx'. writable_once ctx ''/f'' \<Longrightarrow>
          \<not> stringv_mem (sv_writefiles ctx) q \<Longrightarrow>
          mediafirefs_create sample_ext q m fi ctx = Return r (fi', ctx') \<Longrightarrow>
          writable_once ctx' ''/f''"
    using inv by blast
  from this [OF I0 F C] have IA: ?IA .
  have "\<And>q fi ctx r ctx'. writable_once ctx ''/f'' \<Longrightarrow>
          mediafirefs_release sample_ext q fi ctx = Some (Return r ctx') \<Longrightarrow>
          writable_once ctx' ''/f''"
    using inv by blast
  from this [OF IA R] have IB: ?IB .
  have "\<And>q fi ctx r fi' ctx'. writable_once ctx ''/f'' \<Longrightarrow>
          mediafirefs_open sample_ext q fi ctx = Return r (fi', ctx') \<Longrightarrow>
          writable_once ctx' ''/f''"
    using inv by blast
  from this [OF I0 O] have IC: ?IC .
  from I0 F C IA R IB O IC show ?thesis by (intro conjI)
qed

text \<open>
  C2 as stated fails: from the initial state a read-write open of \<open>/f\<close> succeeds, the
  state satisfies the spec's predicate, and a read-only open of \<open>/f\<close> then succeeds too,
  which leaves \<open>/f\<close> with an entry in each vector.
\<close>

theorem census_broken_by_readonly_open_counterexample:
  "census_ok (initial_context (0::nat)) ''/f''
   \<and> mediafirefs_open sample_ext ''/f'' \<lparr>flags = O_RDWR, fh = 0\<rparr> (initial_context 0)
      = Return 0 (\<lparr>flags = O_RDWR, fh = 1\<rparr>, opened_rw)
   \<and> census_ok opened_rw ''/f''
   \<and> mediafirefs_open sample_ext ''/f'' \<lparr>flags = O_RDONLY, fh = 0\<rparr> opened_rw
      = Return 0 (\<lparr>flags = O_RDONLY, fh = 2\<rparr>,
          \<lparr>world = 2,
           calls = [Folder_tree_open_file ''/f'' O_RDWR True, Malloc,
                    Folder_tree_open_file ''/f'' O_RDONLY False, Malloc],
           conn = Some 1, sv_writefiles = [''/f''], sv_readonlyfiles = [''/f''],
           heap = ((\<lambda>a. None)(1 \<mapsto>
                    \<lparr>fd = 5, path = ''/f'', is_readonly = False, is_local = False\<rparr>))
                  (2 \<mapsto> \<lparr>fd = 5, path = ''/f'', is_readonly = True, is_local = False\<rparr>)\<rparr>)
   \<and> \<not> census_ok
        \<lparr>world = (2::nat),
         calls = [Folder_tree_open_file ''/f'' O_RDWR True, Malloc,
                  Folder_tree_open_file ''/f'' O_RDONLY False, Malloc],
         conn = Some 1, sv_writefiles = [''/f''], sv_readonlyfiles = [''/f''],
         heap = ((\<lambda>a. None)(1 \<mapsto>
                  \<lparr>fd = 5, path = ''/f'', is_readonly = False, is_local = False\<rparr>))
                (2 \<mapsto> \<lparr>fd = 5, path = ''/f'', is_readonly = True, is_local = False\<rparr>)\<rparr> ''/f''"
  by (simp add: open_rw_sample)
    (simp add: mediafirefs_open_def opened_rw_def sample_eval census_ok_def numeral_2_eq_2)

text \<open>
  \<open>mediafirefs_create\<close> looks nothing up: called for a path that already has a writable
  entry, it adds a second one.
\<close>

lemma create_on_open_path_duplicates:
  "mediafirefs_create sample_ext ''/f'' 0 \<lparr>flags = O_WRONLY, fh = 0\<rparr> created
   = Return 0 (\<lparr>flags = O_WRONLY, fh = 2\<rparr>,
       \<lparr>world = 2, calls = [Folder_tree_tmp_open, Malloc, Folder_tree_tmp_open, Malloc],
        conn = Some 1, sv_writefiles = [''/f'', ''/f''], sv_readonlyfiles = [],
        heap = ((\<lambda>a. None)(1 \<mapsto>
                 \<lparr>fd = 6, path = ''/f'', is_readonly = False, is_local = True\<rparr>))
               (2 \<mapsto> \<lparr>fd = 6, path = ''/f'', is_readonly = False, is_local = True\<rparr>)\<rparr>)"
  by (simp add: mediafirefs_create_def created_def sample_eval numeral_2_eq_2)

subsection \<open>mkdir below a parent that does not resolve\<close>

text \<open>
  When the parent of the new folder is not the root and its lookup gives \<open>NULL\<close>,
  \<open>mediafirefs_mkdir\<close> goes on as it does for a folder in the root: it calls
  \<open>mfconn_api_folder_create\<close> with a \<open>NULL\<close> parent key and returns by its result.
\<close>

lemma mkdir_null_parent_key:
  assumes "split_at_last_slash (if last p = CHR ''/'' then butlast p else p) = Some (dir, base)"
    and "p \<noteq> []" and "dir \<noteq> []"
    and "folder_tree_path_get_key x dir (world ctx) = (None, w1)"
  shows "mediafirefs_mkdir x p mode ctx
         = (case mfconn_api_folder_create x (conn ctx) None (Some base)
                  (ctx\<lparr>world := w1, calls := calls ctx @ [Folder_tree_path_get_key dir]\<rparr>) of
              (retval, s2) \<Rightarrow>
                if retval \<noteq> 0 then Return (- EAGAIN) s2
                else Return 0 (ext_proc (Folder_tree_update True) (folder_tree_update x True) s2))"
  using assms
  by (simp add: mediafirefs_mkdir_def ext_call_def)

text \<open>
  Once the path holds a slash, \<open>mediafirefs_mkdir\<close> returns 0 or \<open>-EAGAIN\<close> and never
  \<open>-ENOENT\<close>, whatever the lookup of the parent gives.
\<close>

lemma mkdir_never_not_found_with_slash:
  "split_at_last_slash (if last p = CHR ''/'' then butlast p else p) = Some (dir, base) \<Longrightarrow>
   p \<noteq> [] \<Longrightarrow> mediafirefs_mkdir x p mode ctx = Return r ctx' \<Longrightarrow> r = 0 \<or> r = - EAGAIN"
  by (auto simp: mediafirefs_mkdir_def Let_def split: prod.splits if_splits)

text \<open>
  C3 asks that \<open>mkdir\<close> of a path whose parent does not resolve to a folder key fails
  with \<open>-ENOENT\<close> and makes no remote call. The code does neither. In the sample
  environment no path resolves; \<open>mkdir\<close> of \<open>/nodir/new\<close> looks \<open>/nodir\<close> up, gets \<open>NULL\<close>,
  passes it on as the parent key, and so asks the remote for a folder \<open>new\<close> in the
  account root (the request has no \<open>parent_key\<close>); it returns 0.
\<close>

theorem mkdir_unresolved_parent_creates_in_root:
  "folder_tree_path_get_key sample_ext ''/nodir'' (0::nat) = (None, 0)
   \<and> mediafirefs_mkdir sample_ext ''/nodir/new'' 0x1ED (initial_context 0)
      = Return 0
          \<lparr>world = 0,
           calls = [Folder_tree_path_get_key ''/nodir'',
                    Create_signed_get 1 0 ''folder/create.php''
                      ''?foldername=new&response_format=json'',
                    Http_get_buf ''folder/create.php?foldername=new&response_format=json'',
                    Folder_tree_update True],
           conn = Some 1, sv_writefiles = [], sv_readonlyfiles = [], heap = (\<lambda>a. None)\<rparr>"
  by (simp add: mediafirefs_mkdir_def split_at_last_slash_def mfconn_api_folder_create_def
      sample_ext_sel initial_context_def ext_call_def ext_proc_def Let_def)

subsection \<open>The synthetic record of getattr\<close>

text \<open>
  C4 (as amended). For every path that is in \<open>sv_writefiles\<close> and whose catalog lookup
  fails (\<open>folder_tree_getattr\<close> returns a value other than 0), \<open>mediafirefs_getattr\<close>
  returns 0 with a record whose size is 0, whose link count is 1, whose mode is
  \<open>S_IFREG | 0666\<close>, and whose owner and group are the effective uid and gid of the
  process.
\<close>

theorem getattr_synthetic_record:
  assumes "stringv_mem (sv_writefiles ctx) p"
    and "folder_tree_getattr x p stbuf (folder_tree_update x False (world ctx))
           = ((retval, stbuf1), w2)"
    and "retval \<noteq> 0"
  shows "\<exists>st ctx'. mediafirefs_getattr x p stbuf ctx = Return 0 (st, ctx')
           \<and> st_size st = 0 \<and> st_nlink st = 1 \<and> st_mode st = S_IFREG OR perm_0666
           \<and> st_uid st = geteuid x (world ctx') \<and> st_gid st = getegid x (world ctx')"
  using assms
  by (simp add: mediafirefs_getattr_def ext_proc_def ext_call_def)

text \<open>
  The witness: \<open>create\<close> of \<open>/f\<close>, then a getattr of \<open>/f\<close> before the release; the catalog
  of the sample environment does not know the path.
\<close>

theorem getattr_synthetic_record_witness:
  "mediafirefs_create sample_ext ''/f'' 0 \<lparr>flags = O_WRONLY, fh = 0\<rparr> (initial_context 0)
     = Return 0 (\<lparr>flags = O_WRONLY, fh = 1\<rparr>, created)
   \<and> stringv_mem (sv_writefiles created) ''/f''
   \<and> folder_tree_getattr sample_ext ''/f'' zero_stat
        (folder_tree_update sample_ext False (world created)) = ((- 2, zero_stat), 1)
   \<and> (\<exists>st ctx'. mediafirefs_getattr sample_ext ''/f'' zero_stat created = Return 0 (st, ctx')
        \<and> st_size st = 0 \<and> st_nlink st = 1 \<and> st_mode st = S_IFREG OR perm_0666
        \<and> st_uid st = geteuid sample_ext (world ctx')
        \<and> st_gid st = getegid sample_ext (world ctx'))"
  (is "?R \<and> ?A \<and> ?B \<and> ?C")
proof -
  have A: ?A by (simp add: stringv_mem_def created_def)
  have B: ?B by (simp add: sample_ext_sel created_def)
  have C: ?C by (rule getattr_synthetic_record [OF A B]) simp
  from create_sample A B C show ?thesis by (intro conjI)
qed

text \<open>
  C4 as stated fails on the mode: the record's mode is octal 0100666 (\<open>0x81B6\<close>), which
  is not \<open>S_IFREG | 0644\<close>.
\<close>

theorem getattr_synthetic_mode_counterexample:
  "mediafirefs_create sample_ext ''/f'' 0 \<lparr>flags = O_WRONLY, fh = 0\<rparr> (initial_context 0)
     = Return 0 (\<lparr>flags = O_WRONLY, fh = 1\<rparr>, created)
   \<and> stringv_mem (sv_writefiles created) ''/f''
   \<and> mediafirefs_getattr sample_ext ''/f'' zero_stat created
      = Return 0
          (\<lparr>st_uid = 1000, st_gid = 100, st_ctime = 0, st_mtime = 0, st_mode = 0x81B6,
            st_nlink = 1, st_atime = 0, st_size = 0\<rparr>,
           created\<lparr>calls := calls created @ [Folder_tree_update False, Folder_tree_getattr ''/f'']\<rparr>)
   \<and> (0x81B6 :: 32 word) \<noteq> S_IFREG OR perm_0644"
  by (simp add: create_sample)
    (simp add: mediafirefs_getattr_def created_def zero_stat_def sample_eval
      S_IFREG_def perm_0666_def perm_0644_def)

text \<open>What a successful open that is not read-only leaves behind.\<close>

lemma open_writable_success:
  assumes "mediafirefs_open x p fi ctx = Return 0 (fi', ctx1)"
    and "(flags fi AND O_ACCMODE) \<noteq> O_RDONLY"
  shows "stringv_mem (sv_writefiles ctx1) p
         \<and> (\<exists>fdn. heap ctx1 (fh fi')
               = Some \<lparr>fd = fdn, path = p, is_readonly = False, is_local = False\<rparr>)"
  using assms
  by (auto simp: mediafirefs_open_def Let_def stringv_mem_def stringv_add_def EACCES_def
      split: if_splits prod.splits)

text \<open>
  C9. The synthetic record does not depend on the kind of the writable handle. After
  any successful open that is not read-only (the handle's \<open>is_local\<close> is false: it is a
  writable handle on an existing file), and whatever has become of the world since
  (the catalog entry may be gone, the staged file may have any size), a getattr of the
  path whose catalog lookup fails returns 0 with size 0 and the mode of a regular file.
\<close>

theorem getattr_synthetic_for_writable_existing:
  assumes "mediafirefs_open x p fi ctx = Return 0 (fi', ctx1)"
    and "(flags fi AND O_ACCMODE) \<noteq> O_RDONLY"
  shows "(\<exists>fdn. heap ctx1 (fh fi')
            = Some \<lparr>fd = fdn, path = p, is_readonly = False, is_local = False\<rparr>)
         \<and> (\<forall>w stbuf retval stbuf1 w2.
               folder_tree_getattr x p stbuf (folder_tree_update x False w)
                 = ((retval, stbuf1), w2)
               \<longrightarrow> retval \<noteq> 0
               \<longrightarrow> (\<exists>st ctx2.
                      mediafirefs_getattr x p stbuf (ctx1\<lparr>world := w\<rparr>) = Return 0 (st, ctx2)
                      \<and> st_size st = 0 \<and> st_mode st = S_IFREG OR perm_0666))"
proof -
  from open_writable_success [OF assms]
  have mem: "stringv_mem (sv_writefiles ctx1) p"
    and h: "\<exists>fdn. heap ctx1 (fh fi')
               = Some \<lparr>fd = fdn, path = p, is_readonly = False, is_local = False\<rparr>"
    by simp_all
  have "\<exists>st ctx2. mediafirefs_getattr x p stbuf (ctx1\<lparr>world := w\<rparr>) = Return 0 (st, ctx2)
                      \<and> st_size st = 0 \<and> st_mode st = S_IFREG OR perm_0666"
    if "folder_tree_getattr x p stbuf (folder_tree_update x False w) = ((retval, stbuf1), w2)"
      and "retval \<noteq> 0" for w stbuf retval stbuf1 w2
    using that mem by (simp add: mediafirefs_getattr_def ext_proc_def ext_call_def)
  with h show ?thesis by blast
qed

text \<open>
  The witness: a read-write open of \<open>/f\<close> in the sample environment, then a getattr of
  \<open>/f\<close> in a later world (world 7), where the catalog does not know the path.
\<close>

theorem getattr_synthetic_for_writable_existing_witness:
  "mediafirefs_open sample_ext ''/f'' \<lparr>flags = O_RDWR, fh = 0\<rparr> (initial_context 0)
      = Return 0 (\<lparr>flags = O_RDWR, fh = 1\<rparr>, opened_rw)
   \<and> (flags \<lparr>flags = O_RDWR, fh = 0\<rparr> AND O_ACCMODE) \<noteq> O_RDONLY
   \<and> heap opened_rw 1 = Some \<lparr>fd = 5, path = ''/f'', is_readonly = False, is_local = False\<rparr>
   \<and> folder_tree_getattr sample_ext ''/f'' zero_stat (folder_tree_update sample_ext False 7)
      = ((- 2, zero_stat), 7)
   \<and> (\<exists>st ctx2. mediafirefs_getattr sample_ext ''/f'' zero_stat (opened_rw\<lparr>world := 7\<rparr>)
                    = Return 0 (st, ctx2)
        \<and> st_size st = 0 \<and> st_mode st = S_IFREG OR perm_0666)"
  (is "?O \<and> ?F \<and> ?H \<and> ?G \<and> ?C")
proof -
  have O: ?O by (rule open_rw_sample)
  have F: ?F by (simp add: O_RDWR_def O_ACCMODE_def O_RDONLY_def)
  have H: ?H by (simp add: opened_rw_def)
  have G: ?G by (simp add: sample_ext_sel)
  have neq: "(- 2 :: int) \<noteq> 0" by simp
  from getattr_synthetic_for_writable_existing [OF O F, THEN conjunct2, rule_format, OF G neq]
  have C: ?C .
  from O F H G C show ?thesis by (intro conjI)
qed

subsection \<open>The mode argument\<close>

text \<open>
  C10. \<open>mediafirefs_create\<close> and \<open>mediafirefs_mkdir\<close> ignore their mode: for any two
  modes and the same other inputs and state, the outcomes are equal, that is the
  returned value, the handle, the string vectors, the heap, the world and the log of
  external calls.
\<close>

theorem create_and_mkdir_ignore_mode:
  "mediafirefs_create x p mode1 fi ctx = mediafirefs_create x p mode2 fi ctx
   \<and> mediafirefs_mkdir x p mode1 ctx = mediafirefs_mkdir x p mode2 ctx"
  by (simp add: mediafirefs_create_def mediafirefs_mkdir_def)

subsection \<open>The parent key "myfiles"\<close>



text \<open>
  A parent key of 13 characters is passed on as it is, and so is any other key that is
  not \<open>"myfiles"\<close>.
\<close>

lemma folder_create_other_parent:
  "k \<noteq> ''myfiles'' \<Longrightarrow> n \<noteq> [] \<Longrightarrow>
     mfconn_api_folder_create x (Some c) (Some k) (Some n) s
       = (let params = ''?parent_key='' @ k @ ''&foldername='' @ n @ ''&response_format=json'';
              (api_call, s1) =
                ext_call (Create_signed_get c 0 ''folder/create.php'' params)
                  (mfconn_create_signed_get x c 0 ''folder/create.php'' params) s
          in ext_call (Http_get_buf api_call) (http_get_buf x api_call) s1)"
  by (simp add: mfconn_api_folder_create_def split: prod.splits)

subsection \<open>Failures at release\<close>

text \<open>
  The three ways in which the upload of a writable handle can fail, for a handle whose
  path has exactly one entry in \<open>sv_writefiles\<close> (so that the callback does not exit). In
  each of them the entry is removed, the descriptor is closed and the handle is freed.
  When \<open>mfconn_api_upload_simple\<close> fails or gives no key, and when
  \<open>folder_tree_upload_patch\<close> fails, the callback returns \<open>-EACCES\<close>.
\<close>

lemma release_upload_simple_failure:
  assumes "heap ctx (fh fi) = Some opf" and "\<not> is_readonly opf" and "is_local opf"
    and "stringv_del (sv_writefiles ctx) (path opf) = (0, sv)"
    and "\<not> stringv_mem sv (path opf)"
    and "folder_tree_path_get_key x (dirname (path opf)) (world ctx) = (key, w1)"
    and "mfconn_api_upload_simple x key (fd opf) (basename (path opf)) w1
           = ((retval, upload_key), w2)"
    and "retval \<noteq> 0 \<or> upload_key = None"
  shows "\<exists>ctx'. mediafirefs_release x p fi ctx = Some (Return (- EACCES) ctx')
           \<and> sv_writefiles ctx' = sv \<and> sv_readonlyfiles ctx' = sv_readonlyfiles ctx
           \<and> heap ctx' = (heap ctx)(fh fi := None)
           \<and> world ctx' = close_fd x (fd opf) w2"
  using assms
  by (auto simp: mediafirefs_release_def ext_call_def ext_proc_def Let_def
      split: option.splits)

lemma release_upload_patch_failure:
  assumes "heap ctx (fh fi) = Some opf" and "\<not> is_readonly opf" and "\<not> is_local opf"
    and "stringv_del (sv_writefiles ctx) (path opf) = (0, sv)"
    and "\<not> stringv_mem sv (path opf)"
    and "folder_tree_upload_patch x (path opf) (close_fd x (fd opf) (world ctx)) = (retval, w2)"
    and "retval \<noteq> 0"
  shows "\<exists>ctx'. mediafirefs_release x p fi ctx = Some (Return (- EACCES) ctx')
           \<and> sv_writefiles ctx' = sv \<and> sv_readonlyfiles ctx' = sv_readonlyfiles ctx
           \<and> heap ctx' = (heap ctx)(fh fi := None)
           \<and> world ctx' = w2"
  using assms
  by (auto simp: mediafirefs_release_def ext_call_def ext_proc_def Let_def
      split: option.splits)

text \<open>When the first poll fails, the callback returns -1.\<close>

lemma release_upload_poll_failure:
  assumes "heap ctx (fh fi) = Some opf" and "\<not> is_readonly opf" and "is_local opf"
    and "stringv_del (sv_writefiles ctx) (path opf) = (0, sv)"
    and "\<not> stringv_mem sv (path opf)"
    and "folder_tree_path_get_key x (dirname (path opf)) (world ctx) = (key, w1)"
    and "mfconn_api_upload_simple x key (fd opf) (basename (path opf)) w1
           = ((0, Some k), w2)"
    and "mfconn_api_upload_poll_upload x k (close_fd x (fd opf) w2)
           = ((retval, status, fileerror), w3)"
    and "retval \<noteq> 0"
  shows "\<exists>ctx'. mediafirefs_release x p fi ctx = Some (Return (- 1) ctx')
           \<and> sv_writefiles ctx' = sv \<and> sv_readonlyfiles ctx' = sv_readonlyfiles ctx
           \<and> heap ctx' = (heap ctx)(fh fi := None)
           \<and> world ctx' = w3"
proof -
  have "poll_loop x k s
          = Some (False, s\<lparr>world := w3, calls := calls s @ [Api_upload_poll_upload k]\<rparr>)"
    if "world s = close_fd x (fd opf) w2" for s
    using that assms by (subst poll_loop.simps) (simp add: ext_call_def)
  with assms show ?thesis
    by (simp add: mediafirefs_release_def ext_call_def ext_proc_def Let_def)
qed

text \<open>
  C5 asks for \<open>-EACCES\<close> from every release whose upload or patch step fails. When the
  upload is accepted and the poll for its completion fails, the code returns -1: the
  entry has left \<open>sv_writefiles\<close>, the descriptor is closed and the handle freed, but the
  value returned is not \<open>-EACCES\<close>. Here the handle is that of \<open>create\<close> of \<open>/f\<close>, and the
  remote fails at the first poll.
\<close>

theorem release_poll_failure_returns_minus_one:
  "mediafirefs_create failing_poll_ext ''/f'' 0 \<lparr>flags = O_WRONLY, fh = 0\<rparr> (initial_context 0)
     = Return 0 (\<lparr>flags = O_WRONLY, fh = 1\<rparr>, created)
   \<and> mediafirefs_release failing_poll_ext ''/f'' \<lparr>flags = O_WRONLY, fh = 1\<rparr> created
      = Some (Return (- 1)
          \<lparr>world = 1,
           calls = [Folder_tree_tmp_open, Malloc, Folder_tree_path_get_key ''/'',
                    Api_upload_simple None 6 ''f'', Fclose 6, Free 1,
                    Api_upload_poll_upload ''upload0''],
           conn = Some 1, sv_writefiles = [], sv_readonlyfiles = [], heap = (\<lambda>a. None)\<rparr>)
   \<and> - 1 \<noteq> - EACCES"
proof -
  have sel:
    "folder_tree_tmp_open failing_poll_ext = (\<lambda>w. (6, w))"
    "malloc failing_poll_ext = (\<lambda>w. (Suc w, Suc w))"
    "folder_tree_path_get_key failing_poll_ext = (\<lambda>p w. (None, w))"
    "mfconn_api_upload_simple failing_poll_ext = (\<lambda>key fdn name w. ((0, Some ''upload0''), w))"
    "mfconn_api_upload_poll_upload failing_poll_ext = (\<lambda>key w. ((- 1, 0, 0), w))"
    "close_fd failing_poll_ext = (\<lambda>fdn w. w)"
    by (simp_all add: failing_poll_ext_def sample_ext_def)
  have poll: "poll_loop failing_poll_ext k s
      = Some (False, s\<lparr>calls := calls s @ [Api_upload_poll_upload k]\<rparr>)"
    for k and s :: "nat context_private"
    by (subst poll_loop.simps) (simp add: sel ext_call_def)
  have C: "mediafirefs_create failing_poll_ext ''/f'' 0 \<lparr>flags = O_WRONLY, fh = 0\<rparr>
             (initial_context 0) = Return 0 (\<lparr>flags = O_WRONLY, fh = 1\<rparr>, created)"
    by (simp add: mediafirefs_create_def created_def sel initial_context_def stringv_add_def
        ext_call_def)
  have R: "mediafirefs_release failing_poll_ext ''/f'' \<lparr>flags = O_WRONLY, fh = 1\<rparr> created
      = Some (Return (- 1)
          \<lparr>world = 1,
           calls = [Folder_tree_tmp_open, Malloc, Folder_tree_path_get_key ''/'',
                    Api_upload_simple None 6 ''f'', Fclose 6, Free 1,
                    Api_upload_poll_upload ''upload0''],
           conn = Some 1, sv_writefiles = [], sv_readonlyfiles = [], heap = (\<lambda>a. None)\<rparr>)"
    by (simp add: mediafirefs_release_def created_def stringv_del_def stringv_mem_def
        path_parts ext_call_def ext_proc_def poll fun_eq_iff sel)
  have N: "- 1 \<noteq> - EACCES" by (simp add: EACCES_def)
  from C R N show ?thesis by (intro conjI)
qed

subsection \<open>The key of a file object\<close>

lemma c_str_idem_append: "c_str (c_str k @ NUL # rest) = c_str k"
  unfolding c_str_def
  by (induction k) auto

lemma c_str_replicate: "c \<noteq> NUL \<Longrightarrow> c_str (replicate n c) = replicate n c"
  by (simp add: c_str_def takeWhile_replicate)

lemma stored_key:
  assumes "strlen k = 11 \<or> strlen k = 15"
  shows "c_str (strncpy (memset q NUL 18) k 17) = c_str k"
proof -
  from assms have len: "length (c_str k) < 17" by (auto simp: strlen_def)
  then obtain m where m: "17 - length (c_str k) = Suc m" by (cases "17 - length (c_str k)") auto
  have "take 17 (c_str k @ replicate 17 NUL) = c_str k @ replicate (17 - length (c_str k)) NUL"
    using len by simp
  also have "\<dots> = c_str k @ NUL # replicate m NUL" by (simp add: m)
  finally show ?thesis by (simp add: strncpy_def c_str_idem_append)
qed

text \<open>A length below \<open>2^31\<close> is kept by the narrowing to \<open>int\<close>.\<close>

lemma sint_narrow: "n < 2 ^ 31 \<Longrightarrow> sint (word_of_nat n :: 32 word) = int n"
  by (simp add: signed_of_nat signed_take_bit_int_eq_self)

text \<open>
  For a key shorter than \<open>2^31\<close> bytes, \<open>file_set_key\<close> does what the specification says: it returns 0
  exactly when the file and the key are not \<open>NULL\<close> and the key's length is 11 or 15;
  when it returns 0, \<open>file_get_key\<close> on the object gives a string equal to the key;
  otherwise it returns -1 and the object, and so its stored key, is as it was.
\<close>

lemma file_set_key_short_key:
  assumes "\<forall>k. key = Some k \<longrightarrow> strlen k < 2 ^ 31"
  shows "(fst (file_set_key file key) = 0 \<longleftrightarrow>
            (\<exists>f k. file = Some f \<and> key = Some k \<and> (strlen k = 11 \<or> strlen k = 15)))
         \<and> (\<forall>k. key = Some k \<longrightarrow> fst (file_set_key file key) = 0 \<longrightarrow>
               (\<exists>s. file_get_key (snd (file_set_key file key)) = Some s \<and> c_str s = c_str k))
         \<and> (fst (file_set_key file key) \<noteq> 0 \<longrightarrow>
               fst (file_set_key file key) = - 1 \<and> snd (file_set_key file key) = file)"
  using assms
  by (auto simp: file_set_key_def file_get_key_def Let_def stored_key sint_narrow
      split: option.splits)

text \<open>
  C8 asks that \<open>file_set_key\<close> returns 0 only for a key of 11 or 15 characters and that
  the stored key then equals the key. The length is tested after it has been narrowed
  to an \<open>int\<close>: a key of \<open>2^32 + 11\<close> bytes (4294967307 times the letter \<open>a\<close>) passes the
  test as if it had 11. The callback returns 0 and stores the first 17 bytes of the
  key, so the stored key has 17 characters and is not the key.
\<close>

theorem file_set_key_accepts_wrapped_length:
  "strlen (replicate 4294967307 (CHR ''a'')) = 4294967307
   \<and> file_set_key (Some file_alloc) (Some (replicate 4294967307 (CHR ''a'')))
      = (0, Some (file_alloc\<lparr>quickkey := replicate 17 (CHR ''a'') @ [NUL]\<rparr>))
   \<and> c_str (replicate 17 (CHR ''a'') @ [NUL]) = replicate 17 (CHR ''a'')"
proof -
  have a: "CHR ''a'' \<noteq> NUL" by (simp add: NUL_def)
  have len: "strlen (replicate 4294967307 (CHR ''a'')) = 4294967307"
    by (simp add: strlen_def c_str_replicate [OF a])
  have q: "quickkey file_alloc = replicate 18 NUL" by (simp add: file_alloc_def)
  have set: "file_set_key (Some file_alloc) (Some (replicate 4294967307 (CHR ''a'')))
      = (0, Some (file_alloc\<lparr>quickkey := replicate 17 (CHR ''a'') @ [NUL]\<rparr>))"
    by (simp add: file_set_key_def len q strncpy_def memset_def c_str_replicate [OF a])
  have "c_str (replicate 17 (CHR ''a'') @ [NUL]) = replicate 17 (CHR ''a'')"
    using c_str_idem_append [of "replicate 17 (CHR ''a'')" "[]"]
    by (simp add: c_str_replicate [OF a])
  with len set show ?thesis by (intro conjI)
qed

subsection \<open>The round trip through the remote\<close>

lemma store_ext_sel:
  "folder_tree_update store_ext = store_update"
  "folder_tree_getattr store_ext = store_getattr"
  "folder_tree_path_get_key store_ext = (\<lambda>p w. (folder_keys w p, w))"
  "folder_tree_open_file store_ext = store_open_file"
  "folder_tree_tmp_open store_ext = store_tmp_open"
  "folder_tree_upload_patch store_ext = store_upload_patch"
  "mfconn_api_upload_simple store_ext = store_upload_simple"
  "mfconn_api_upload_poll_upload store_ext = store_upload_poll"
  "malloc store_ext = (\<lambda>w. (Suc (next_addr w), w\<lparr>next_addr := Suc (next_addr w)\<rparr>))"
  "close_fd store_ext = (\<lambda>fdn w. w\<lparr>descriptors := (descriptors w)(fdn := None)\<rparr>)"
  "pread store_ext = store_pread"
  "pwrite store_ext = store_pwrite"
  by (simp_all add: store_ext_def)

text \<open>
  Over the store the polling loop ends, whatever the delay: it polls once more than the
  delay says, and the last poll publishes the upload.
\<close>

lemma poll_loop_store:
  "upload_delay (world s) = n \<Longrightarrow> remote_ok (world s) \<Longrightarrow>
     poll_loop store_ext k s
       = Some (True, s\<lparr>world := publish k ((world s)\<lparr>upload_delay := 0\<rparr>),
                        calls := calls s @ replicate (Suc n) (Api_upload_poll_upload k)\<rparr>)"
proof (induction n arbitrary: s)
  case 0
  then have e: "(world s)\<lparr>upload_delay := 0\<rparr> = world s" by simp
  from 0 show ?case
    by (subst poll_loop.simps) (simp add: store_ext_sel ext_call_def store_upload_poll_def e)
next
  case (Suc n)
  let ?s1 = "s\<lparr>world := (world s)\<lparr>upload_delay := n\<rparr>,
                calls := calls s @ [Api_upload_poll_upload k]\<rparr>"
  have step: "poll_loop store_ext k s = poll_loop store_ext k ?s1"
    using Suc.prems
    by (subst poll_loop.simps)
      (simp add: store_ext_sel ext_call_def store_upload_poll_def)
  have "poll_loop store_ext k ?s1
       = Some (True, ?s1\<lparr>world := publish k ((world ?s1)\<lparr>upload_delay := 0\<rparr>),
                           calls := calls ?s1 @ replicate (Suc n) (Api_upload_poll_upload k)\<rparr>)"
    using Suc.prems by (intro Suc.IH) simp_all
  then show ?case
    unfolding step by (simp add: replicate_app_Cons_same)
qed









text \<open>
  The other hypothesis is needed as well. Below a folder that does not resolve,
  \<open>mediafirefs_release\<close> passes the \<open>NULL\<close> key on to the upload, as \<open>mediafirefs_mkdir\<close>
  does to the folder creation: the file goes to the account root, the release returns
  0, and the open of the path that follows fails with \<open>-ENOENT\<close>.
\<close>

lemma roundtrip_below_unresolved_parent:
  "\<exists>fi1 c1 c2 c3 c4.
     mediafirefs_create store_ext ''/nodir/a.txt'' 0 \<lparr>flags = O_WRONLY, fh = 0\<rparr>
       (initial_context demo_store) = Return 0 (fi1, c1)
     \<and> mediafirefs_write store_ext ''/nodir/a.txt'' ''hello'' 0 fi1 c1 = Return 5 c2
     \<and> mediafirefs_release store_ext ''/nodir/a.txt'' fi1 c2 = Some (Return 0 c3)
     \<and> mediafirefs_open store_ext ''/nodir/a.txt'' \<lparr>flags = O_RDONLY, fh = 0\<rparr> c3
         = Return (- ENOENT) (\<lparr>flags = O_RDONLY, fh = 0\<rparr>, c4)"
  by (simp add: mediafirefs_create_def mediafirefs_write_def
      mediafirefs_release_def mediafirefs_open_def
      demo_store_def initial_context_def store_ext_sel ext_call_def ext_proc_def
      store_tmp_open_def store_open_file_def store_upload_simple_def store_update_def
      store_pwrite_def resolve_file_def new_staging_def new_descriptor_def
      fd_content_def designated_folder_def publish_def poll_loop_store [OF refl]
      stringv_mem_def stringv_add_def stringv_del_def
      dirname_def basename_def last_slash_def strip_slashes_def
      O_RDONLY_def O_WRONLY_def O_ACCMODE_def ENOENT_def EACCES_def Let_def)

end
